theory Spec2Isabelle
  imports Main "HOL-Library.Word"
begin

unbundle bit_operations_syntax

section \<open>Python values\<close>

text \<open>
  The SDK moves decoded JSON documents and keyword-argument bags around without
  looking inside them, so the embedding needs one type of Python values. A
  \<open>dict\<close> keeps insertion order and is an association list; a \<open>float\<close> is carried
  as its IEEE-754 bit pattern, since the SDK never computes with one.
\<close>

datatype pyval =
    PNone
  | PBool bool
  | PInt int
  | PFloat "64 word"
  | PStr string
  | PList "pyval list"
  | PDict "(string \<times> pyval) list"

type_synonym pydict = "(string \<times> pyval) list"

text \<open>Truth value testing, as \<open>if v:\<close> does it.\<close>

fun truthy :: "pyval \<Rightarrow> bool" where
  "truthy PNone = False"
| "truthy (PBool b) = b"
| "truthy (PInt i) = (i \<noteq> 0)"
| "truthy (PFloat w) = (w AND 0x7FFFFFFFFFFFFFFF \<noteq> 0)"
| "truthy (PStr s) = (s \<noteq> [])"
| "truthy (PList xs) = (xs \<noteq> [])"
| "truthy (PDict d) = (d \<noteq> [])"

text \<open>\<open>d[k] = v\<close>: an existing key keeps its position, a new key goes last.\<close>

fun dict_set :: "('k \<times> 'v) list \<Rightarrow> 'k \<Rightarrow> 'v \<Rightarrow> ('k \<times> 'v) list" where
  "dict_set [] k v = [(k, v)]"
| "dict_set ((k', v') # d) k v =
     (if k' = k then (k, v) # d else (k', v') # dict_set d k v)"

text \<open>\<open>d.get(k, default)\<close>.\<close>

definition dict_get :: "('k \<times> 'v) list \<Rightarrow> 'k \<Rightarrow> 'v \<Rightarrow> 'v" where
  "dict_get d k dflt = (case map_of d k of None \<Rightarrow> dflt | Some v \<Rightarrow> v)"

definition dict_keys :: "('k \<times> 'v) list \<Rightarrow> 'k set" where
  "dict_keys d = fst ` set d"

text \<open>\<open>d or None\<close>: an empty dict is falsy.\<close>

definition or_None :: "('k \<times> 'v) list \<Rightarrow> ('k \<times> 'v) list option" where
  "or_None d = (if d = [] then None else Some d)"

text \<open>\<open>if s:\<close> on an \<open>Optional[str]\<close>: \<open>None\<close> and the empty string are falsy.\<close>

definition truthy_str :: "string option \<Rightarrow> bool" where
  "truthy_str s = (case s of None \<Rightarrow> False | Some t \<Rightarrow> t \<noteq> [])"

section \<open>exceptions.py\<close>

text \<open>
  The classes below \<open>ApiError\<close> differ in their class, their fixed status code and
  the defaults of their two parameters. An instance is a record of its class and
  the three attributes \<open>ApiError.__init__\<close> assigns, plus the text handed to
  \<open>Exception.__init__\<close>. That text is an f-string; it is kept as its pieces, a
  replacement field holding the value that \<open>str\<close> is applied to.
\<close>

datatype exc_class =
    ApiErrorC
  | AuthenticationErrorC
  | ForbiddenErrorC
  | NotFoundErrorC
  | ConflictErrorC
  | ValidationErrorC
  | RateLimitErrorC

datatype fpiece = Lit string | Field pyval

record api_error =
  cls :: exc_class
  status_code :: int
  error :: pyval
  message :: pyval
  args :: "fpiece list"

text \<open>A parameter with a default: \<open>None\<close> is an argument that was not passed.\<close>

definition or_default :: "'a option \<Rightarrow> 'a \<Rightarrow> 'a" where
  "or_default a d = (case a of None \<Rightarrow> d | Some v \<Rightarrow> v)"

definition ApiError_init ::
  "exc_class \<Rightarrow> int \<Rightarrow> pyval option \<Rightarrow> pyval option \<Rightarrow> api_error" where
  "ApiError_init c sc e m =
     (let err = or_default e (PStr []); msg = or_default m (PStr [])
      in \<lparr> cls = c, status_code = sc, error = err, message = msg,
           args = (if truthy err
                   then [Lit ''['', Field (PInt sc), Lit ''] '', Field err, Lit '': '', Field msg]
                   else [Lit ''['', Field (PInt sc), Lit ''] '', Field msg]) \<rparr>)"

definition ApiError :: "int \<Rightarrow> pyval option \<Rightarrow> pyval option \<Rightarrow> api_error" where
  "ApiError sc e m = ApiError_init ApiErrorC sc e m"

definition AuthenticationError :: "pyval option \<Rightarrow> pyval option \<Rightarrow> api_error" where
  "AuthenticationError e m =
     ApiError_init AuthenticationErrorC 401
       (Some (or_default e (PStr ''unauthorized'')))
       (Some (or_default m (PStr ''Authentication required'')))"

definition ForbiddenError :: "pyval option \<Rightarrow> pyval option \<Rightarrow> api_error" where
  "ForbiddenError e m =
     ApiError_init ForbiddenErrorC 403
       (Some (or_default e (PStr ''forbidden'')))
       (Some (or_default m (PStr ''Insufficient permissions'')))"

definition NotFoundError :: "pyval option \<Rightarrow> pyval option \<Rightarrow> api_error" where
  "NotFoundError e m =
     ApiError_init NotFoundErrorC 404
       (Some (or_default e (PStr ''not_found'')))
       (Some (or_default m (PStr ''Resource not found'')))"

definition ConflictError :: "pyval option \<Rightarrow> pyval option \<Rightarrow> api_error" where
  "ConflictError e m =
     ApiError_init ConflictErrorC 409
       (Some (or_default e (PStr ''conflict'')))
       (Some (or_default m (PStr ''Resource already exists'')))"

definition ValidationError :: "pyval option \<Rightarrow> pyval option \<Rightarrow> api_error" where
  "ValidationError e m =
     ApiError_init ValidationErrorC 400
       (Some (or_default e (PStr ''validation_error'')))
       (Some (or_default m (PStr ''Invalid request'')))"

definition RateLimitError :: "pyval option \<Rightarrow> pyval option \<Rightarrow> api_error" where
  "RateLimitError e m =
     ApiError_init RateLimitErrorC 429
       (Some (or_default e (PStr ''rate_limited'')))
       (Some (or_default m (PStr ''Rate limit exceeded'')))"

section \<open>_http.py\<close>

text \<open>
  The transport wraps an \<open>httpx.Client\<close>, which is not part of the repository. A
  call into it is recorded as a \<open>request\<close> (the verb method called, the URL and the
  keyword arguments passed); what the call does is one of three outcomes: it returns
  a response, it raises an \<open>httpx.HTTPError\<close>, or it raises something else, which
  the transport's \<open>except httpx.HTTPError\<close> does not catch.
\<close>

datatype http_method = GET | POST | PUT | PATCH | DELETE

record request =
  req_method :: http_method
  req_url :: string
  req_headers :: "(string \<times> string) list"
  req_params :: "pydict option"
  req_json :: "pydict option"
  req_data :: "pydict option"

text \<open>
  An \<open>httpx.Response\<close> as the transport observes it: \<open>status_code\<close>, the raw bytes
  \<open>content\<close>, the decoded \<open>text\<close>, and the outcome of \<open>json()\<close>, which is \<open>None\<close> when
  the decoder raises.
\<close>

record response =
  resp_status_code :: int
  resp_content :: string
  resp_text :: string
  resp_json :: "pyval option"

datatype client_outcome =
    Responds response
  | RaisesHTTPError string
  | RaisesOther string

type_synonym network = "request \<Rightarrow> client_outcome"

datatype sdk_error =
    Api api_error
  | CoreAuthError string
  | JSONDecodeError
  | Propagated string

type_synonym result = "sdk_error + pyval"

text \<open>
  The \<open>HttpClient\<close> object: the normalised base address, the credential, and the
  wrapped client, represented by the calls made into it so far.
\<close>

record HttpClient =
  base_url :: string
  token :: "string option"
  client :: "request list"

definition rstrip :: "string \<Rightarrow> char \<Rightarrow> string" where
  "rstrip s c = rev (dropWhile (\<lambda>x. x = c) (rev s))"

definition HttpClient_init :: "string \<Rightarrow> string option \<Rightarrow> HttpClient" where
  "HttpClient_init b t = \<lparr> base_url = rstrip b (CHR ''/''), token = t, client = [] \<rparr>"

definition set_token :: "HttpClient \<Rightarrow> string \<Rightarrow> HttpClient" where
  "set_token hc t = hc\<lparr> token := Some t \<rparr>"

definition clear_token :: "HttpClient \<Rightarrow> HttpClient" where
  "clear_token hc = hc\<lparr> token := None \<rparr>"

definition headers :: "HttpClient \<Rightarrow> (string \<times> string) list" where
  "headers hc =
     (let h = [(''Content-Type'', ''application/json'')]
      in case token hc of
           None \<Rightarrow> h
         | Some t \<Rightarrow> if t \<noteq> [] then dict_set h ''Authorization'' (''Bearer '' @ t) else h)"

definition form_headers :: "HttpClient \<Rightarrow> (string \<times> string) list" where
  "form_headers hc =
     (let h = [(''Content-Type'', ''application/x-www-form-urlencoded'')]
      in case token hc of
           None \<Rightarrow> h
         | Some t \<Rightarrow> if t \<noteq> [] then dict_set h ''Authorization'' (''Bearer '' @ t) else h)"

text \<open>
  The \<open>error_map\<close> of \<open>_handle_response\<close>: status code to constructor. A status that
  is not a key selects \<open>ApiError\<close>, which alone takes the status code as argument.
\<close>

definition error_map :: "(int \<times> (pyval option \<Rightarrow> pyval option \<Rightarrow> api_error)) list" where
  "error_map =
     [(400, ValidationError),
      (401, AuthenticationError),
      (403, ForbiddenError),
      (404, NotFoundError),
      (409, ConflictError),
      (429, RateLimitError)]"

text \<open>
  The \<open>try\<close> block of \<open>_handle_response\<close>. \<open>body.get\<close> exists only on a dict: any
  other decoded value raises \<open>AttributeError\<close>, which \<open>except Exception\<close> catches
  like a decoding failure.
\<close>

definition error_fields :: "response \<Rightarrow> pyval \<times> pyval" where
  "error_fields resp =
     (case resp_json resp of
        Some (PDict body) \<Rightarrow>
          (dict_get body ''error'' (PStr []), dict_get body ''message'' (PStr []))
      | _ \<Rightarrow> (PStr [], PStr (resp_text resp)))"

definition handle_response :: "response \<Rightarrow> result" where
  "handle_response resp =
     (if resp_status_code resp = 204 then Inr PNone
      else if 200 \<le> resp_status_code resp \<and> resp_status_code resp < 300 then
        (if resp_content resp = [] then Inr PNone
         else case resp_json resp of
                None \<Rightarrow> Inl JSONDecodeError
              | Some v \<Rightarrow> Inr v)
      else
        (let (err, msg) = error_fields resp
         in case map_of error_map (resp_status_code resp) of
              None \<Rightarrow> Inl (Api (ApiError (resp_status_code resp) (Some err) (Some msg)))
            | Some c \<Rightarrow> Inl (Api (c (Some err) (Some msg)))))"

text \<open>
  The body shared by the six verb methods: call the wrapped client, turn an
  \<open>httpx.HTTPError\<close> into \<open>CoreAuthError\<close>, and classify the response.
\<close>

definition perform :: "network \<Rightarrow> HttpClient \<Rightarrow> request \<Rightarrow> HttpClient \<times> result" where
  "perform net hc req =
     (hc\<lparr> client := client hc @ [req] \<rparr>,
      case net req of
        RaisesHTTPError e \<Rightarrow> Inl (CoreAuthError (''Request failed: '' @ e))
      | RaisesOther x \<Rightarrow> Inl (Propagated x)
      | Responds resp \<Rightarrow> handle_response resp)"

definition HttpClient_get ::
  "network \<Rightarrow> HttpClient \<Rightarrow> string \<Rightarrow> pydict option \<Rightarrow> HttpClient \<times> result" where
  "HttpClient_get net hc path params =
     perform net hc
       \<lparr> req_method = GET, req_url = base_url hc @ path, req_headers = headers hc,
         req_params = params, req_json = None, req_data = None \<rparr>"

definition HttpClient_post ::
  "network \<Rightarrow> HttpClient \<Rightarrow> string \<Rightarrow> pydict option \<Rightarrow> HttpClient \<times> result" where
  "HttpClient_post net hc path json =
     perform net hc
       \<lparr> req_method = POST, req_url = base_url hc @ path, req_headers = headers hc,
         req_params = None, req_json = json, req_data = None \<rparr>"

definition HttpClient_post_form ::
  "network \<Rightarrow> HttpClient \<Rightarrow> string \<Rightarrow> pydict \<Rightarrow> HttpClient \<times> result" where
  "HttpClient_post_form net hc path data =
     perform net hc
       \<lparr> req_method = POST, req_url = base_url hc @ path, req_headers = form_headers hc,
         req_params = None, req_json = None, req_data = Some data \<rparr>"

definition HttpClient_put ::
  "network \<Rightarrow> HttpClient \<Rightarrow> string \<Rightarrow> pydict option \<Rightarrow> HttpClient \<times> result" where
  "HttpClient_put net hc path json =
     perform net hc
       \<lparr> req_method = PUT, req_url = base_url hc @ path, req_headers = headers hc,
         req_params = None, req_json = json, req_data = None \<rparr>"

definition HttpClient_patch ::
  "network \<Rightarrow> HttpClient \<Rightarrow> string \<Rightarrow> pydict option \<Rightarrow> HttpClient \<times> result" where
  "HttpClient_patch net hc path json =
     perform net hc
       \<lparr> req_method = PATCH, req_url = base_url hc @ path, req_headers = headers hc,
         req_params = None, req_json = json, req_data = None \<rparr>"

definition HttpClient_delete ::
  "network \<Rightarrow> HttpClient \<Rightarrow> string \<Rightarrow> pydict option \<Rightarrow> HttpClient \<times> result" where
  "HttpClient_delete net hc path json =
     perform net hc
       \<lparr> req_method = DELETE, req_url = base_url hc @ path, req_headers = headers hc,
         req_params = None, req_json = json, req_data = None \<rparr>"

text \<open>The calls a method made into the wrapped client, given the transport before it.\<close>

definition sent_by :: "HttpClient \<Rightarrow> HttpClient \<times> result \<Rightarrow> request list" where
  "sent_by hc r = drop (length (client hc)) (client (fst r))"

definition query_keys :: "request \<Rightarrow> string set" where
  "query_keys r = (case req_params r of None \<Rightarrow> {} | Some d \<Rightarrow> dict_keys d)"

section \<open>services\<close>

text \<open>
  The two guards the facades use on an optional argument: \<open>if v: d[k] = v\<close> for an
  \<open>Optional[str]\<close>, and \<open>if v is not None: d[k] = v\<close>.
\<close>

definition set_if_truthy :: "pydict \<Rightarrow> string \<Rightarrow> string option \<Rightarrow> pydict" where
  "set_if_truthy d k v =
     (case v of None \<Rightarrow> d | Some s \<Rightarrow> if s \<noteq> [] then dict_set d k (PStr s) else d)"

definition set_if_not_None :: "pydict \<Rightarrow> string \<Rightarrow> pyval option \<Rightarrow> pydict" where
  "set_if_not_None d k v = (case v of None \<Rightarrow> d | Some x \<Rightarrow> dict_set d k x)"

subsection \<open>services/auth.py\<close>

definition AuthService_login ::
  "network \<Rightarrow> HttpClient \<Rightarrow> string \<Rightarrow> string \<Rightarrow> string \<Rightarrow> HttpClient \<times> result" where
  "AuthService_login net hc tenant_id email password =
     HttpClient_post net hc ''/api/auth/login''
       (Some [(''tenant_id'', PStr tenant_id),
              (''email'', PStr email),
              (''password'', PStr password)])"

definition AuthService_create_login_flow_browser ::
  "network \<Rightarrow> HttpClient \<Rightarrow> string option \<Rightarrow> string option \<Rightarrow> HttpClient \<times> result" where
  "AuthService_create_login_flow_browser net hc organization_id request_id =
     (let params = [];
          params = set_if_truthy params ''organization_id'' organization_id;
          params = set_if_truthy params ''request_id'' request_id
      in HttpClient_get net hc ''/self-service/login/browser'' (or_None params))"

definition AuthService_create_login_flow_api ::
  "network \<Rightarrow> HttpClient \<Rightarrow> string option \<Rightarrow> string option \<Rightarrow> HttpClient \<times> result" where
  "AuthService_create_login_flow_api net hc organization_id request_id =
     (let params = [];
          params = set_if_truthy params ''organization_id'' organization_id;
          params = set_if_truthy params ''request_id'' request_id
      in HttpClient_get net hc ''/self-service/login/api'' (or_None params))"

definition AuthService_create_registration_flow_browser ::
  "network \<Rightarrow> HttpClient \<Rightarrow> string option \<Rightarrow> HttpClient \<times> result" where
  "AuthService_create_registration_flow_browser net hc organization_id =
     (let params = [];
          params = set_if_truthy params ''organization_id'' organization_id
      in HttpClient_get net hc ''/self-service/registration/browser'' (or_None params))"

definition AuthService_create_registration_flow_api ::
  "network \<Rightarrow> HttpClient \<Rightarrow> string option \<Rightarrow> HttpClient \<times> result" where
  "AuthService_create_registration_flow_api net hc organization_id =
     (let params = [];
          params = set_if_truthy params ''organization_id'' organization_id
      in HttpClient_get net hc ''/self-service/registration/api'' (or_None params))"

subsection \<open>services/scim.py\<close>

text \<open>\<open>kw\<close> is the \<open>**params\<close> bag; \<open>{**params}\<close> copies it.\<close>

definition ScimService_list_users ::
  "network \<Rightarrow> HttpClient \<Rightarrow> string option \<Rightarrow> int option \<Rightarrow> int option \<Rightarrow> pydict
     \<Rightarrow> HttpClient \<times> result" where
  "ScimService_list_users net hc filter_arg count start_index kw =
     (let p = kw;
          p = set_if_truthy p ''filter'' filter_arg;
          p = set_if_not_None p ''count'' (map_option PInt count);
          p = set_if_not_None p ''startIndex'' (map_option PInt start_index)
      in HttpClient_get net hc ''/scim/v2/Users'' (or_None p))"

definition ScimService_list_scim_groups ::
  "network \<Rightarrow> HttpClient \<Rightarrow> string option \<Rightarrow> int option \<Rightarrow> int option \<Rightarrow> pydict
     \<Rightarrow> HttpClient \<times> result" where
  "ScimService_list_scim_groups net hc filter_arg count start_index kw =
     (let p = kw;
          p = set_if_truthy p ''filter'' filter_arg;
          p = set_if_not_None p ''count'' (map_option PInt count);
          p = set_if_not_None p ''startIndex'' (map_option PInt start_index)
      in HttpClient_get net hc ''/scim/v2/Groups'' (or_None p))"

definition ScimService_list_sessions ::
  "network \<Rightarrow> HttpClient \<Rightarrow> string option \<Rightarrow> HttpClient \<times> result" where
  "ScimService_list_sessions net hc user_id =
     (let params = [];
          params = set_if_truthy params ''user_id'' user_id
      in HttpClient_get net hc ''/api/sessions'' (or_None params))"

subsection \<open>services/audit.py\<close>

definition AuditService_query ::
  "network \<Rightarrow> HttpClient \<Rightarrow> string option \<Rightarrow> string option \<Rightarrow> string option
     \<Rightarrow> string option \<Rightarrow> string option \<Rightarrow> int option \<Rightarrow> int option
     \<Rightarrow> HttpClient \<times> result" where
  "AuditService_query net hc tenant_id event_types user_id start_date end_date limit offset =
     (let params = [];
          params = set_if_truthy params ''tenant_id'' tenant_id;
          params = set_if_truthy params ''event_types'' event_types;
          params = set_if_truthy params ''user_id'' user_id;
          params = set_if_truthy params ''start_date'' start_date;
          params = set_if_truthy params ''end_date'' end_date;
          params = set_if_not_None params ''limit'' (map_option PInt limit);
          params = set_if_not_None params ''offset'' (map_option PInt offset)
      in HttpClient_get net hc ''/api/audit/logs'' (or_None params))"

subsection \<open>services/fga.py\<close>

definition FgaService_list_stores ::
  "network \<Rightarrow> HttpClient \<Rightarrow> bool option \<Rightarrow> HttpClient \<times> result" where
  "FgaService_list_stores net hc include_inactive =
     (let params = [];
          params = set_if_not_None params ''include_inactive'' (map_option PBool include_inactive)
      in HttpClient_get net hc ''/api/fga/stores'' (or_None params))"

definition FgaService_read_store_tuples ::
  "network \<Rightarrow> HttpClient \<Rightarrow> string \<Rightarrow> pydict \<Rightarrow> HttpClient \<times> result" where
  "FgaService_read_store_tuples net hc store_id kw =
     HttpClient_get net hc (''/api/fga/stores/'' @ store_id @ ''/tuples'') (or_None kw)"

subsection \<open>services/oauth2.py\<close>

definition OAuth2Service_oidc_logout ::
  "network \<Rightarrow> HttpClient \<Rightarrow> string option \<Rightarrow> string option \<Rightarrow> string option
     \<Rightarrow> HttpClient \<times> result" where
  "OAuth2Service_oidc_logout net hc id_token_hint post_logout_redirect_uri state =
     (let params = [];
          params = set_if_truthy params ''id_token_hint'' id_token_hint;
          params = set_if_truthy params ''post_logout_redirect_uri'' post_logout_redirect_uri;
          params = set_if_truthy params ''state'' state
      in HttpClient_get net hc ''/logout'' (or_None params))"

subsection \<open>services/webhooks.py\<close>

definition WebhooksService_list_deliveries ::
  "network \<Rightarrow> HttpClient \<Rightarrow> string \<Rightarrow> string \<Rightarrow> pydict \<Rightarrow> HttpClient \<times> result" where
  "WebhooksService_list_deliveries net hc org_id webhook_id kw =
     HttpClient_get net hc
       (''/api/organizations/'' @ org_id @ ''/webhooks/'' @ webhook_id @ ''/deliveries'')
       (or_None kw)"

section \<open>Observations used in the statements\<close>

text \<open>
  A result that is the raising of an \<open>ApiError\<close> instance of class \<open>c\<close> with the
  given attributes; and the same without fixing class and status code.
\<close>

definition raises :: "result \<Rightarrow> exc_class \<Rightarrow> int \<Rightarrow> pyval \<Rightarrow> pyval \<Rightarrow> bool" where
  "raises r c sc e m =
     (case r of
        Inl (Api x) \<Rightarrow> cls x = c \<and> status_code x = sc \<and> error x = e \<and> message x = m
      | _ \<Rightarrow> False)"

definition fails_with :: "result \<Rightarrow> pyval \<Rightarrow> pyval \<Rightarrow> bool" where
  "fails_with r e m =
     (case r of
        Inl (Api x) \<Rightarrow> error x = e \<and> message x = m
      | _ \<Rightarrow> False)"

text \<open>The value of a request's \<open>Authorization\<close> header, if it has one.\<close>

definition auth_header :: "request \<Rightarrow> string option" where
  "auth_header r = map_of (req_headers r) ''Authorization''"

text \<open>Any one call of a verb method of the transport.\<close>

datatype call =
    Get string "pydict option"
  | Post string "pydict option"
  | PostForm string pydict
  | Put string "pydict option"
  | Patch string "pydict option"
  | Delete string "pydict option"

fun issue :: "network \<Rightarrow> HttpClient \<Rightarrow> call \<Rightarrow> HttpClient \<times> result" where
  "issue net hc (Get path params) = HttpClient_get net hc path params"
| "issue net hc (Post path json) = HttpClient_post net hc path json"
| "issue net hc (PostForm path data) = HttpClient_post_form net hc path data"
| "issue net hc (Put path json) = HttpClient_put net hc path json"
| "issue net hc (Patch path json) = HttpClient_patch net hc path json"
| "issue net hc (Delete path json) = HttpClient_delete net hc path json"

text \<open>Whether a request's query mapping has the key \<open>k\<close>.\<close>

definition has_param :: "string \<Rightarrow> request \<Rightarrow> bool" where
  "has_param k r = (k \<in> query_keys r)"

text \<open>The request that the login scenario with \<open>t1\<close>, \<open>u@x.com\<close>, \<open>pw\<close> expects on the wire.\<close>

definition login_request :: "HttpClient \<Rightarrow> request" where
  "login_request hc =
     \<lparr> req_method = POST,
       req_url = base_url hc @ ''/api/auth/login'',
       req_headers = headers hc,
       req_params = None,
       req_json = Some [(''tenant_id'', PStr ''t1''),
                        (''email'', PStr ''u@x.com''),
                        (''password'', PStr ''pw'')],
       req_data = None \<rparr>"

section \<open>Sample inputs\<close>

definition sample_error_response :: "int \<Rightarrow> response" where
  "sample_error_response sc =
     \<lparr> resp_status_code = sc,
       resp_content = ''{..}'',
       resp_text = ''{..}'',
       resp_json = Some (PDict [(''error'', PStr ''bad_field''),
                                (''message'', PStr ''email is malformed'')]) \<rparr>"

definition a1_body :: string where
  "a1_body = [CHR ''{'', CHR 0x22, CHR ''a'', CHR 0x22, CHR '':'', CHR ''1'', CHR ''}'']"

definition localhost :: HttpClient where
  "localhost = HttpClient_init ''http://localhost:3000/'' None"

definition no_content :: network where
  "no_content = (\<lambda>r. Responds \<lparr> resp_status_code = 204, resp_content = [], resp_text = [],
                                   resp_json = None \<rparr>)"

definition token_object :: pyval where
  "token_object =
     PDict [(''access_token'', PStr ''A''), (''refresh_token'', PStr ''R''),
            (''token_type'', PStr ''Bearer''), (''expires_in'', PInt 3600)]"

definition token_server :: network where
  "token_server =
     (\<lambda>r. Responds \<lparr> resp_status_code = 200, resp_content = ''{..}'', resp_text = ''{..}'',
                      resp_json = Some token_object \<rparr>)"

section \<open>Theorems\<close>

lemma ApiError_init_fields:
  "cls (ApiError_init c sc (Some e) (Some m)) = c"
  "status_code (ApiError_init c sc (Some e) (Some m)) = sc"
  "error (ApiError_init c sc (Some e) (Some m)) = e"
  "message (ApiError_init c sc (Some e) (Some m)) = m"
  by (simp_all add: ApiError_init_def or_default_def Let_def)

text \<open>
  C8. Each specific error class, constructed without arguments, carries the default
  error code and default message of the status table, and its fixed status code:
  400 validation_error / Invalid request, 401 unauthorized / Authentication required,
  403 forbidden / Insufficient permissions, 404 not_found / Resource not found,
  409 conflict / Resource already exists, 429 rate_limited / Rate limit exceeded.
\<close>

theorem C8_constructor_defaults:
  "cls (ValidationError None None) = ValidationErrorC
   \<and> status_code (ValidationError None None) = 400
   \<and> error (ValidationError None None) = PStr ''validation_error''
   \<and> message (ValidationError None None) = PStr ''Invalid request''
   \<and> cls (AuthenticationError None None) = AuthenticationErrorC
   \<and> status_code (AuthenticationError None None) = 401
   \<and> error (AuthenticationError None None) = PStr ''unauthorized''
   \<and> message (AuthenticationError None None) = PStr ''Authentication required''
   \<and> cls (ForbiddenError None None) = ForbiddenErrorC
   \<and> status_code (ForbiddenError None None) = 403
   \<and> error (ForbiddenError None None) = PStr ''forbidden''
   \<and> message (ForbiddenError None None) = PStr ''Insufficient permissions''
   \<and> cls (NotFoundError None None) = NotFoundErrorC
   \<and> status_code (NotFoundError None None) = 404
   \<and> error (NotFoundError None None) = PStr ''not_found''
   \<and> message (NotFoundError None None) = PStr ''Resource not found''
   \<and> cls (ConflictError None None) = ConflictErrorC
   \<and> status_code (ConflictError None None) = 409
   \<and> error (ConflictError None None) = PStr ''conflict''
   \<and> message (ConflictError None None) = PStr ''Resource already exists''
   \<and> cls (RateLimitError None None) = RateLimitErrorC
   \<and> status_code (RateLimitError None None) = 429
   \<and> error (RateLimitError None None) = PStr ''rate_limited''
   \<and> message (RateLimitError None None) = PStr ''Rate limit exceeded''"
  by (simp add: ValidationError_def AuthenticationError_def ForbiddenError_def
      NotFoundError_def ConflictError_def RateLimitError_def ApiError_init_fields
      or_default_def)

lemma map_of_error_map:
  "map_of error_map sc =
     (if sc = 400 then Some ValidationError
      else if sc = 401 then Some AuthenticationError
      else if sc = 403 then Some ForbiddenError
      else if sc = 404 then Some NotFoundError
      else if sc = 409 then Some ConflictError
      else if sc = 429 then Some RateLimitError
      else None)"
  by (simp add: error_map_def)

lemma handle_response_error:
  assumes "\<not> (200 \<le> resp_status_code resp \<and> resp_status_code resp < 300)"
  shows "handle_response resp =
     (case map_of error_map (resp_status_code resp) of
        None \<Rightarrow> Inl (Api (ApiError (resp_status_code resp)
                  (Some (fst (error_fields resp))) (Some (snd (error_fields resp)))))
      | Some c \<Rightarrow> Inl (Api (c (Some (fst (error_fields resp))) (Some (snd (error_fields resp))))))"
  using assms by (auto simp add: handle_response_def case_prod_beta Let_def)

lemma subclass_fields:
  "cls (ValidationError (Some e) (Some m)) = ValidationErrorC"
  "cls (AuthenticationError (Some e) (Some m)) = AuthenticationErrorC"
  "cls (ForbiddenError (Some e) (Some m)) = ForbiddenErrorC"
  "cls (NotFoundError (Some e) (Some m)) = NotFoundErrorC"
  "cls (ConflictError (Some e) (Some m)) = ConflictErrorC"
  "cls (RateLimitError (Some e) (Some m)) = RateLimitErrorC"
  "cls (ApiError sc (Some e) (Some m)) = ApiErrorC"
  "status_code (ValidationError (Some e) (Some m)) = 400"
  "status_code (AuthenticationError (Some e) (Some m)) = 401"
  "status_code (ForbiddenError (Some e) (Some m)) = 403"
  "status_code (NotFoundError (Some e) (Some m)) = 404"
  "status_code (ConflictError (Some e) (Some m)) = 409"
  "status_code (RateLimitError (Some e) (Some m)) = 429"
  "status_code (ApiError sc (Some e) (Some m)) = sc"
  "error (ValidationError (Some e) (Some m)) = e"
  "error (AuthenticationError (Some e) (Some m)) = e"
  "error (ForbiddenError (Some e) (Some m)) = e"
  "error (NotFoundError (Some e) (Some m)) = e"
  "error (ConflictError (Some e) (Some m)) = e"
  "error (RateLimitError (Some e) (Some m)) = e"
  "error (ApiError sc (Some e) (Some m)) = e"
  "message (ValidationError (Some e) (Some m)) = m"
  "message (AuthenticationError (Some e) (Some m)) = m"
  "message (ForbiddenError (Some e) (Some m)) = m"
  "message (NotFoundError (Some e) (Some m)) = m"
  "message (ConflictError (Some e) (Some m)) = m"
  "message (RateLimitError (Some e) (Some m)) = m"
  "message (ApiError sc (Some e) (Some m)) = m"
  by (simp_all add: ValidationError_def AuthenticationError_def ForbiddenError_def
      NotFoundError_def ConflictError_def RateLimitError_def ApiError_def
      ApiError_init_fields or_default_def)

lemma raises_error:
  assumes "\<not> (200 \<le> resp_status_code resp \<and> resp_status_code resp < 300)"
  shows "raises (handle_response resp)
           (if resp_status_code resp = 400 then ValidationErrorC
            else if resp_status_code resp = 401 then AuthenticationErrorC
            else if resp_status_code resp = 403 then ForbiddenErrorC
            else if resp_status_code resp = 404 then NotFoundErrorC
            else if resp_status_code resp = 409 then ConflictErrorC
            else if resp_status_code resp = 429 then RateLimitErrorC
            else ApiErrorC)
           (resp_status_code resp) (fst (error_fields resp)) (snd (error_fields resp))"
  by (simp add: handle_response_error [OF assms] map_of_error_map raises_def subclass_fields)

lemma error_fields_dict:
  "resp_json resp = Some (PDict body) \<Longrightarrow>
     error_fields resp = (dict_get body ''error'' (PStr []), dict_get body ''message'' (PStr []))"
  by (simp add: error_fields_def)

lemma error_fields_undecodable:
  "resp_json resp = None \<Longrightarrow> error_fields resp = (PStr [], PStr (resp_text resp))"
  by (simp add: error_fields_def)

text \<open>
  C1. For a response whose status is one of 400, 401, 403, 404, 409, 429 and whose
  body decodes to a JSON object with \<open>error = E\<close> and \<open>message = M\<close>, the response
  handler raises the error class the status selects (400 ValidationError,
  401 AuthenticationError, 403 ForbiddenError, 404 NotFoundError, 409 ConflictError,
  429 RateLimitError), carrying exactly \<open>E\<close> and \<open>M\<close>, not the constructor defaults.
\<close>

theorem C1_status_selects_kind_with_body_fields:
  assumes "resp_json resp = Some (PDict body)"
    and "map_of body ''error'' = Some E"
    and "map_of body ''message'' = Some M"
  shows "(resp_status_code resp = 400 \<longrightarrow> raises (handle_response resp) ValidationErrorC 400 E M)
    \<and> (resp_status_code resp = 401 \<longrightarrow> raises (handle_response resp) AuthenticationErrorC 401 E M)
    \<and> (resp_status_code resp = 403 \<longrightarrow> raises (handle_response resp) ForbiddenErrorC 403 E M)
    \<and> (resp_status_code resp = 404 \<longrightarrow> raises (handle_response resp) NotFoundErrorC 404 E M)
    \<and> (resp_status_code resp = 409 \<longrightarrow> raises (handle_response resp) ConflictErrorC 409 E M)
    \<and> (resp_status_code resp = 429 \<longrightarrow> raises (handle_response resp) RateLimitErrorC 429 E M)"
proof -
  have f: "error_fields resp = (E, M)"
    using assms by (simp add: error_fields_dict dict_get_def)
  have r: "raises (handle_response resp)
           (if resp_status_code resp = 400 then ValidationErrorC
            else if resp_status_code resp = 401 then AuthenticationErrorC
            else if resp_status_code resp = 403 then ForbiddenErrorC
            else if resp_status_code resp = 404 then NotFoundErrorC
            else if resp_status_code resp = 409 then ConflictErrorC
            else if resp_status_code resp = 429 then RateLimitErrorC
            else ApiErrorC)
           (resp_status_code resp) E M"
    if "\<not> (200 \<le> resp_status_code resp \<and> resp_status_code resp < 300)"
    using raises_error [OF that] f by simp
  show ?thesis
    by (intro conjI impI) (use r in simp_all)
qed

theorem C1_witness:
  "raises (handle_response (sample_error_response 400)) ValidationErrorC 400
     (PStr ''bad_field'') (PStr ''email is malformed'')
   \<and> raises (handle_response (sample_error_response 401)) AuthenticationErrorC 401
     (PStr ''bad_field'') (PStr ''email is malformed'')
   \<and> raises (handle_response (sample_error_response 403)) ForbiddenErrorC 403
     (PStr ''bad_field'') (PStr ''email is malformed'')
   \<and> raises (handle_response (sample_error_response 404)) NotFoundErrorC 404
     (PStr ''bad_field'') (PStr ''email is malformed'')
   \<and> raises (handle_response (sample_error_response 409)) ConflictErrorC 409
     (PStr ''bad_field'') (PStr ''email is malformed'')
   \<and> raises (handle_response (sample_error_response 429)) RateLimitErrorC 429
     (PStr ''bad_field'') (PStr ''email is malformed'')"
proof -
  have "resp_json (sample_error_response sc)
          = Some (PDict [(''error'', PStr ''bad_field''), (''message'', PStr ''email is malformed'')])
        \<and> resp_status_code (sample_error_response sc) = sc" for sc
    by (simp add: sample_error_response_def)
  then show ?thesis
    using C1_status_selects_kind_with_body_fields
      [of "sample_error_response sc"
          "[(''error'', PStr ''bad_field''), (''message'', PStr ''email is malformed'')]"
          "PStr ''bad_field''" "PStr ''email is malformed''" for sc]
    by simp
qed

text \<open>
  C2. The response handler returns \<open>None\<close> when the status is 204, whatever the
  body, and when the status is any 2xx and the body is empty; for any other 2xx
  response it returns the decoded JSON body. In particular status 200 with body
  \<open>{"a":1}\<close> yields the decoded object.
\<close>

theorem C2_success_classification:
  "(resp_status_code resp = 204 \<longrightarrow> handle_response resp = Inr PNone)
   \<and> (200 \<le> resp_status_code resp \<and> resp_status_code resp < 300 \<and> resp_content resp = []
        \<longrightarrow> handle_response resp = Inr PNone)
   \<and> (200 \<le> resp_status_code resp \<and> resp_status_code resp < 300
        \<and> resp_status_code resp \<noteq> 204 \<and> resp_content resp \<noteq> [] \<and> resp_json resp = Some v
        \<longrightarrow> handle_response resp = Inr v)
   \<and> handle_response \<lparr> resp_status_code = 200, resp_content = a1_body, resp_text = a1_body,
          resp_json = Some (PDict [(''a'', PInt 1)]) \<rparr> = Inr (PDict [(''a'', PInt 1)])"
  by (simp add: handle_response_def a1_body_def)

theorem C2_witness:
  "handle_response \<lparr> resp_status_code = 204, resp_content = ''ignored'', resp_text = ''ignored'',
      resp_json = None \<rparr> = Inr PNone
   \<and> handle_response \<lparr> resp_status_code = 200, resp_content = [], resp_text = [],
      resp_json = None \<rparr> = Inr PNone
   \<and> handle_response \<lparr> resp_status_code = 201, resp_content = ''[true]'', resp_text = ''[true]'',
      resp_json = Some (PList [PBool True]) \<rparr> = Inr (PList [PBool True])"
  using C2_success_classification
      [of "\<lparr> resp_status_code = 204, resp_content = ''ignored'', resp_text = ''ignored'',
            resp_json = None \<rparr>" PNone]
    C2_success_classification
      [of "\<lparr> resp_status_code = 200, resp_content = [], resp_text = [],
            resp_json = None \<rparr>" PNone]
    C2_success_classification
      [of "\<lparr> resp_status_code = 201, resp_content = ''[true]'', resp_text = ''[true]'',
            resp_json = Some (PList [PBool True]) \<rparr>" "PList [PBool True]"]
  by simp

text \<open>
  C3. For a response whose status is outside 2xx and is none of 400, 401, 403, 404,
  409, 429, the handler raises the generic \<open>ApiError\<close> carrying the raw status code
  and the error and message taken from the body: the object's fields (the empty
  string for a missing one) when the body decodes to an object, the empty code and
  the raw text when it does not decode. In particular status 500 with body
  \<open>{error: "x", message: "y"}\<close> raises \<open>ApiError\<close> with 500, \<open>x\<close>, \<open>y\<close>.
\<close>

theorem C3_unmapped_status_is_generic:
  assumes "\<not> (200 \<le> resp_status_code resp \<and> resp_status_code resp < 300)"
    and "resp_status_code resp \<notin> {400, 401, 403, 404, 409, 429}"
  shows "raises (handle_response resp) ApiErrorC (resp_status_code resp)
           (fst (error_fields resp)) (snd (error_fields resp))
    \<and> (\<forall>body. resp_json resp = Some (PDict body) \<longrightarrow>
          raises (handle_response resp) ApiErrorC (resp_status_code resp)
            (dict_get body ''error'' (PStr [])) (dict_get body ''message'' (PStr [])))
    \<and> (resp_json resp = None \<longrightarrow>
          raises (handle_response resp) ApiErrorC (resp_status_code resp)
            (PStr []) (PStr (resp_text resp)))
    \<and> raises (handle_response \<lparr> resp_status_code = 500, resp_content = c, resp_text = t,
          resp_json = Some (PDict [(''error'', PStr ''x''), (''message'', PStr ''y'')]) \<rparr>)
        ApiErrorC 500 (PStr ''x'') (PStr ''y'')"
proof -
  have g: "raises (handle_response r) ApiErrorC (resp_status_code r)
             (fst (error_fields r)) (snd (error_fields r))"
    if "\<not> (200 \<le> resp_status_code r \<and> resp_status_code r < 300)"
      and "resp_status_code r \<notin> {400, 401, 403, 404, 409, 429}" for r
    using raises_error [OF that(1)] that(2) by simp
  have "raises (handle_response \<lparr> resp_status_code = 500, resp_content = c, resp_text = t,
          resp_json = Some (PDict [(''error'', PStr ''x''), (''message'', PStr ''y'')]) \<rparr>)
        ApiErrorC 500 (PStr ''x'') (PStr ''y'')"
    using g [of "\<lparr> resp_status_code = 500, resp_content = c, resp_text = t,
          resp_json = Some (PDict [(''error'', PStr ''x''), (''message'', PStr ''y'')]) \<rparr>"]
    by (simp add: error_fields_def dict_get_def)
  moreover have "raises (handle_response resp) ApiErrorC (resp_status_code resp)
           (fst (error_fields resp)) (snd (error_fields resp))"
    using g assms by blast
  ultimately show ?thesis
    by (auto simp add: error_fields_dict error_fields_undecodable)
qed

theorem C3_witness:
  "raises (handle_response \<lparr> resp_status_code = 503, resp_content = ''{..}'', resp_text = ''{..}'',
          resp_json = Some (PDict [(''error'', PStr ''unavailable''), (''message'', PStr ''try later'')]) \<rparr>)
        ApiErrorC 503 (PStr ''unavailable'') (PStr ''try later'')
   \<and> raises (handle_response \<lparr> resp_status_code = 302, resp_content = ''moved'', resp_text = ''moved'',
          resp_json = None \<rparr>)
        ApiErrorC 302 (PStr []) (PStr ''moved'')"
  using C3_unmapped_status_is_generic
      [of "\<lparr> resp_status_code = 503, resp_content = ''{..}'', resp_text = ''{..}'',
          resp_json = Some (PDict [(''error'', PStr ''unavailable''), (''message'', PStr ''try later'')]) \<rparr>"]
    C3_unmapped_status_is_generic
      [of "\<lparr> resp_status_code = 302, resp_content = ''moved'', resp_text = ''moved'',
          resp_json = None \<rparr>"]
  by (simp add: dict_get_def)

text \<open>
  C4. For a response whose status is outside 2xx and whose body does not decode as
  JSON, the raised error carries the empty error code and the raw response text as
  message; on a 404 it is a \<open>NotFoundError\<close>.
\<close>

theorem C4_undecodable_error_body:
  assumes "\<not> (200 \<le> resp_status_code resp \<and> resp_status_code resp < 300)"
    and "resp_json resp = None"
  shows "fails_with (handle_response resp) (PStr []) (PStr (resp_text resp))
    \<and> (resp_status_code resp = 404 \<longrightarrow>
          raises (handle_response resp) NotFoundErrorC 404 (PStr []) (PStr (resp_text resp)))"
proof -
  from raises_error [OF assms(1)]
  show ?thesis
    by (auto simp add: error_fields_undecodable [OF assms(2)] raises_def fails_with_def
        split: sum.splits sdk_error.splits)
qed

theorem C4_witness:
  "fails_with (handle_response \<lparr> resp_status_code = 502, resp_content = ''Bad Gateway'',
        resp_text = ''Bad Gateway'', resp_json = None \<rparr>) (PStr []) (PStr ''Bad Gateway'')
   \<and> raises (handle_response \<lparr> resp_status_code = 404, resp_content = ''<html>gone</html>'',
        resp_text = ''<html>gone</html>'', resp_json = None \<rparr>)
       NotFoundErrorC 404 (PStr []) (PStr ''<html>gone</html>'')"
  using C4_undecodable_error_body
      [of "\<lparr> resp_status_code = 502, resp_content = ''Bad Gateway'',
        resp_text = ''Bad Gateway'', resp_json = None \<rparr>"]
    C4_undecodable_error_body
      [of "\<lparr> resp_status_code = 404, resp_content = ''<html>gone</html>'',
        resp_text = ''<html>gone</html>'', resp_json = None \<rparr>"]
  by simp

text \<open>
  C9. For a response whose status is outside 2xx and whose body decodes to a JSON
  object lacking \<open>error\<close> and/or \<open>message\<close>, the raised error carries the empty
  string for each missing field. A 401 with body \<open>{}\<close> raises an
  \<open>AuthenticationError\<close> with empty code and message, not with that class's
  defaults.
\<close>

theorem C9_missing_keys_give_empty_strings:
  assumes "\<not> (200 \<le> resp_status_code resp \<and> resp_status_code resp < 300)"
    and "resp_json resp = Some (PDict body)"
  shows "(map_of body ''error'' = None \<and> map_of body ''message'' = None
            \<longrightarrow> fails_with (handle_response resp) (PStr []) (PStr []))
    \<and> (\<forall>M. map_of body ''error'' = None \<and> map_of body ''message'' = Some M
            \<longrightarrow> fails_with (handle_response resp) (PStr []) M)
    \<and> (\<forall>E. map_of body ''error'' = Some E \<and> map_of body ''message'' = None
            \<longrightarrow> fails_with (handle_response resp) E (PStr []))
    \<and> (resp_status_code resp = 401 \<and> body = []
            \<longrightarrow> raises (handle_response resp) AuthenticationErrorC 401 (PStr []) (PStr [])
              \<and> \<not> raises (handle_response resp) AuthenticationErrorC 401
                    (error (AuthenticationError None None))
                    (message (AuthenticationError None None)))"
proof -
  from raises_error [OF assms(1)]
  show ?thesis
    by (auto simp add: error_fields_dict [OF assms(2)] raises_def fails_with_def dict_get_def
        AuthenticationError_def ApiError_init_fields or_default_def
        split: sum.splits sdk_error.splits)
qed

theorem C9_witness:
  "raises (handle_response \<lparr> resp_status_code = 401, resp_content = ''{}'', resp_text = ''{}'',
        resp_json = Some (PDict []) \<rparr>) AuthenticationErrorC 401 (PStr []) (PStr [])
   \<and> \<not> raises (handle_response \<lparr> resp_status_code = 401, resp_content = ''{}'', resp_text = ''{}'',
        resp_json = Some (PDict []) \<rparr>) AuthenticationErrorC 401
          (PStr ''unauthorized'') (PStr ''Authentication required'')
   \<and> fails_with (handle_response \<lparr> resp_status_code = 403, resp_content = ''{..}'', resp_text = ''{..}'',
        resp_json = Some (PDict [(''message'', PStr ''no access'')]) \<rparr>) (PStr []) (PStr ''no access'')
   \<and> fails_with (handle_response \<lparr> resp_status_code = 500, resp_content = ''{..}'', resp_text = ''{..}'',
        resp_json = Some (PDict [(''error'', PStr ''boom'')]) \<rparr>) (PStr ''boom'') (PStr [])"
  using C9_missing_keys_give_empty_strings
      [of "\<lparr> resp_status_code = 401, resp_content = ''{}'', resp_text = ''{}'',
        resp_json = Some (PDict []) \<rparr>" "[]"]
    C9_missing_keys_give_empty_strings
      [of "\<lparr> resp_status_code = 403, resp_content = ''{..}'', resp_text = ''{..}'',
        resp_json = Some (PDict [(''message'', PStr ''no access'')]) \<rparr>" "[(''message'', PStr ''no access'')]"]
    C9_missing_keys_give_empty_strings
      [of "\<lparr> resp_status_code = 500, resp_content = ''{..}'', resp_text = ''{..}'',
        resp_json = Some (PDict [(''error'', PStr ''boom'')]) \<rparr>" "[(''error'', PStr ''boom'')]"]
  by (simp add: AuthenticationError_def ApiError_init_fields or_default_def)

lemma sent_by_perform: "sent_by hc (perform net hc req) = [req]"
  by (simp add: sent_by_def perform_def)

lemma snd_perform:
  "snd (perform net hc req) =
     (case net req of
        RaisesHTTPError e \<Rightarrow> Inl (CoreAuthError (''Request failed: '' @ e))
      | RaisesOther x \<Rightarrow> Inl (Propagated x)
      | Responds resp \<Rightarrow> handle_response resp)"
  by (simp add: perform_def)

lemma auth_header_headers:
  "map_of (headers hc) ''Authorization'' =
     (case token hc of None \<Rightarrow> None | Some t \<Rightarrow> if t = [] then None else Some (''Bearer '' @ t))"
  by (simp add: headers_def split: option.splits)

lemma auth_header_form_headers:
  "map_of (form_headers hc) ''Authorization'' =
     (case token hc of None \<Rightarrow> None | Some t \<Rightarrow> if t = [] then None else Some (''Bearer '' @ t))"
  by (simp add: form_headers_def split: option.splits)

lemma auth_header_issue:
  "map auth_header (sent_by hc (issue net hc c)) =
     [case token hc of None \<Rightarrow> None | Some t \<Rightarrow> if t = [] then None else Some (''Bearer '' @ t)]"
  by (cases c)
    (simp_all add: HttpClient_get_def HttpClient_post_def HttpClient_post_form_def
      HttpClient_put_def HttpClient_patch_def HttpClient_delete_def sent_by_perform
      auth_header_def auth_header_headers auth_header_form_headers)

text \<open>
  C5, as stated, fails for the empty token: after \<open>set_token("")\<close> the next request
  carries no \<open>Authorization\<close> header at all, not \<open>Bearer\<close> followed by the token.
\<close>

theorem C5_counterexample:
  "\<not> (map auth_header
         (sent_by (set_token localhost [])
            (issue no_content (set_token localhost []) (Get ''/api/auth/me'' None)))
       = [Some (''Bearer '' @ [])])"
  by (simp add: auth_header_issue set_token_def del: issue.simps)

text \<open>
  C5, amended. Every call of a verb method of the transport hands the wrapped
  client exactly one request, and that request carries \<open>Authorization: Bearer t\<close>
  if and only if the current credential is a non-empty string \<open>t\<close>. So after
  \<open>set_token(t)\<close> with \<open>t\<close> non-empty the next request carries
  \<open>Authorization: Bearer t\<close>, and after \<open>clear_token()\<close> the next request carries
  no \<open>Authorization\<close> header.
\<close>

theorem C5_bearer_header_iff_nonempty_token:
  "map auth_header (sent_by hc (issue net hc c)) =
     [case token hc of None \<Rightarrow> None | Some t \<Rightarrow> if t = [] then None else Some (''Bearer '' @ t)]
   \<and> (t \<noteq> [] \<longrightarrow>
        map auth_header (sent_by (set_token hc t) (issue net (set_token hc t) c))
          = [Some (''Bearer '' @ t)])
   \<and> map auth_header (sent_by (clear_token hc) (issue net (clear_token hc) c)) = [None]"
  by (simp add: auth_header_issue set_token_def clear_token_def)

theorem C5_witness:
  "map auth_header
     (sent_by (set_token localhost ''tok-1'')
        (issue no_content (set_token localhost ''tok-1'') (Post ''/api/auth/logout'' None)))
     = [Some ''Bearer tok-1'']
   \<and> map auth_header
     (sent_by (clear_token (set_token localhost ''tok-1''))
        (issue no_content (clear_token (set_token localhost ''tok-1'')) (Get ''/api/auth/me'' None)))
     = [None]"
  using C5_bearer_header_iff_nonempty_token
      [of "set_token localhost ''tok-1''" no_content "Get ''/api/auth/me'' None" "''tok-1''"]
    C5_bearer_header_iff_nonempty_token
      [of localhost no_content "Post ''/api/auth/logout'' None" "''tok-1''"]
  by (simp del: issue.simps)

text \<open>
  C10. \<open>set_token("")\<close> behaves like \<open>clear_token()\<close>: the next request carries no
  \<open>Authorization\<close> header and is the very request sent after \<open>clear_token()\<close>,
  since the header is attached on the credential's truthiness; a request carries
  the header only when the credential is a non-empty string.
\<close>

theorem C10_empty_token_is_no_token:
  "map auth_header (sent_by (set_token hc []) (issue net (set_token hc []) c)) = [None]
   \<and> sent_by (set_token hc []) (issue net (set_token hc []) c)
       = sent_by (clear_token hc) (issue net (clear_token hc) c)
   \<and> (map auth_header (sent_by hc (issue net hc c)) \<noteq> [None])
       = (\<exists>t. token hc = Some t \<and> t \<noteq> [])"
proof -
  have h: "headers (set_token hc []) = headers (clear_token hc)"
    "form_headers (set_token hc []) = form_headers (clear_token hc)"
    by (simp_all add: headers_def form_headers_def set_token_def clear_token_def)
  have b: "base_url (set_token hc []) = base_url (clear_token hc)"
    by (simp add: set_token_def clear_token_def)
  have "sent_by (set_token hc []) (issue net (set_token hc []) c)
       = sent_by (clear_token hc) (issue net (clear_token hc) c)"
    by (cases c)
      (simp_all add: HttpClient_get_def HttpClient_post_def HttpClient_post_form_def
        HttpClient_put_def HttpClient_patch_def HttpClient_delete_def sent_by_perform h b)
  moreover have "map auth_header (sent_by (set_token hc []) (issue net (set_token hc []) c)) = [None]"
    by (simp add: auth_header_issue set_token_def)
  moreover have "(map auth_header (sent_by hc (issue net hc c)) \<noteq> [None])
       = (\<exists>t. token hc = Some t \<and> t \<noteq> [])"
    by (simp add: auth_header_issue split: option.splits)
  ultimately show ?thesis by blast
qed

theorem C10_witness:
  "map auth_header
     (sent_by (set_token localhost [])
        (issue no_content (set_token localhost []) (Get ''/api/auth/me'' None))) = [None]
   \<and> map auth_header
     (sent_by (set_token localhost ''k'')
        (issue no_content (set_token localhost ''k'') (Get ''/api/auth/me'' None))) \<noteq> [None]"
proof -
  note A = C10_empty_token_is_no_token [of localhost no_content "Get ''/api/auth/me'' None"]
  note B = C10_empty_token_is_no_token
      [of "set_token localhost ''k''" no_content "Get ''/api/auth/me'' None"]
  have "\<exists>t. token (set_token localhost ''k'') = Some t \<and> t \<noteq> []"
    by (simp add: set_token_def)
  with B have "map auth_header
     (sent_by (set_token localhost ''k'')
        (issue no_content (set_token localhost ''k'') (Get ''/api/auth/me'' None))) \<noteq> [None]"
    by (simp del: issue.simps)
  with A [THEN conjunct1] show ?thesis
    by (intro conjI)
qed

text \<open>
  C6. \<open>login("t1", "u@x.com", "pw")\<close> hands the wrapped client exactly one request:
  a POST to the base address followed by \<open>/api/auth/login\<close>, with JSON body
  \<open>{"tenant_id": "t1", "email": "u@x.com", "password": "pw"}\<close>. When the answer has
  status 200 and a body that decodes to an object, the call returns that object
  unchanged.
\<close>

theorem C6_login_end_to_end:
  "sent_by hc (AuthService_login net hc ''t1'' ''u@x.com'' ''pw'') = [login_request hc]
   \<and> (net (login_request hc) = Responds resp \<and> resp_status_code resp = 200
        \<and> resp_content resp \<noteq> [] \<and> resp_json resp = Some obj
       \<longrightarrow> snd (AuthService_login net hc ''t1'' ''u@x.com'' ''pw'') = Inr obj)"
  by (simp add: AuthService_login_def HttpClient_post_def sent_by_perform snd_perform
      login_request_def handle_response_def)

theorem C6_witness:
  "sent_by localhost (AuthService_login token_server localhost ''t1'' ''u@x.com'' ''pw'')
     = [\<lparr> req_method = POST,
          req_url = ''http://localhost:3000/api/auth/login'',
          req_headers = [(''Content-Type'', ''application/json'')],
          req_params = None,
          req_json = Some [(''tenant_id'', PStr ''t1''),
                           (''email'', PStr ''u@x.com''),
                           (''password'', PStr ''pw'')],
          req_data = None \<rparr>]
   \<and> snd (AuthService_login token_server localhost ''t1'' ''u@x.com'' ''pw'') = Inr token_object"
  using C6_login_end_to_end
    [of localhost token_server
       "\<lparr> resp_status_code = 200, resp_content = ''{..}'', resp_text = ''{..}'',
                      resp_json = Some token_object \<rparr>" token_object]
  by (simp add: login_request_def localhost_def HttpClient_init_def rstrip_def headers_def
      token_server_def)

lemma dict_keys_dict_set: "dict_keys (dict_set d k v) = insert k (dict_keys d)"
  by (induction d k v rule: dict_set.induct) (auto simp add: dict_keys_def)

lemma dict_keys_Nil: "dict_keys [] = {}"
  by (simp add: dict_keys_def)

lemma dict_keys_set_if_truthy:
  "dict_keys (set_if_truthy d k v) =
     (if truthy_str v then insert k (dict_keys d) else dict_keys d)"
  by (simp add: set_if_truthy_def truthy_str_def dict_keys_dict_set split: option.splits)

lemma dict_keys_set_if_not_None:
  "dict_keys (set_if_not_None d k v) =
     (case v of None \<Rightarrow> dict_keys d | Some x \<Rightarrow> insert k (dict_keys d))"
  by (simp add: set_if_not_None_def dict_keys_dict_set split: option.splits)

lemma set_if_None:
  "set_if_truthy d k None = d" "set_if_not_None d k None = d"
  by (simp_all add: set_if_truthy_def set_if_not_None_def)

lemma has_param_get:
  "map (has_param k) (sent_by hc (HttpClient_get net hc path (or_None p))) = [k \<in> dict_keys p]"
  by (simp add: HttpClient_get_def sent_by_perform has_param_def query_keys_def or_None_def
      dict_keys_Nil)

lemma req_params_get:
  "map req_params (sent_by hc (HttpClient_get net hc path p)) = [p]"
  by (simp add: HttpClient_get_def sent_by_perform)

lemmas facade_defs =
  AuthService_create_login_flow_browser_def AuthService_create_login_flow_api_def
  AuthService_create_registration_flow_browser_def AuthService_create_registration_flow_api_def
  ScimService_list_users_def ScimService_list_scim_groups_def ScimService_list_sessions_def
  AuditService_query_def FgaService_list_stores_def FgaService_read_store_tuples_def
  OAuth2Service_oidc_logout_def WebhooksService_list_deliveries_def

lemmas absent_simps =
  Let_def has_param_get dict_keys_set_if_truthy dict_keys_set_if_not_None dict_keys_Nil
  truthy_str_def

lemmas none_simps = Let_def req_params_get set_if_None or_None_def

lemma audit_absent:
  "map (has_param ''tenant_id'') (sent_by hc (AuditService_query net hc None et u sd ed l off)) = [False]"
  "map (has_param ''event_types'') (sent_by hc (AuditService_query net hc t None u sd ed l off)) = [False]"
  "map (has_param ''user_id'') (sent_by hc (AuditService_query net hc t et None sd ed l off)) = [False]"
  "map (has_param ''start_date'') (sent_by hc (AuditService_query net hc t et u None ed l off)) = [False]"
  "map (has_param ''end_date'') (sent_by hc (AuditService_query net hc t et u sd None l off)) = [False]"
  "map (has_param ''limit'') (sent_by hc (AuditService_query net hc t et u sd ed None off)) = [False]"
  "map (has_param ''offset'') (sent_by hc (AuditService_query net hc t et u sd ed l None)) = [False]"
  by (simp_all add: AuditService_query_def absent_simps split: option.splits)

lemma audit_none:
  "map req_params (sent_by hc (AuditService_query net hc None None None None None None None)) = [None]"
  by (simp add: AuditService_query_def none_simps)


lemma login_flow_absent:
  "map (has_param ''organization_id'')
     (sent_by hc (AuthService_create_login_flow_browser net hc None rq)) = [False]"
  "map (has_param ''request_id'')
     (sent_by hc (AuthService_create_login_flow_browser net hc org None)) = [False]"
  "map (has_param ''organization_id'')
     (sent_by hc (AuthService_create_login_flow_api net hc None rq)) = [False]"
  "map (has_param ''request_id'')
     (sent_by hc (AuthService_create_login_flow_api net hc org None)) = [False]"
  by (simp_all add: AuthService_create_login_flow_browser_def
      AuthService_create_login_flow_api_def absent_simps split: option.splits)

lemma oidc_logout_absent:
  "map (has_param ''id_token_hint'')
     (sent_by hc (OAuth2Service_oidc_logout net hc None uri st)) = [False]"
  "map (has_param ''post_logout_redirect_uri'')
     (sent_by hc (OAuth2Service_oidc_logout net hc hint None st)) = [False]"
  "map (has_param ''state'')
     (sent_by hc (OAuth2Service_oidc_logout net hc hint uri None)) = [False]"
  by (simp_all add: OAuth2Service_oidc_logout_def absent_simps split: option.splits)

lemma list_users_absent:
  "''filter'' \<notin> dict_keys kw \<Longrightarrow>
     map (has_param ''filter'') (sent_by hc (ScimService_list_users net hc None c si kw)) = [False]"
  "''count'' \<notin> dict_keys kw \<Longrightarrow>
     map (has_param ''count'') (sent_by hc (ScimService_list_users net hc f None si kw)) = [False]"
  "''startIndex'' \<notin> dict_keys kw \<Longrightarrow>
     map (has_param ''startIndex'') (sent_by hc (ScimService_list_users net hc f c None kw)) = [False]"
  by (simp_all add: ScimService_list_users_def absent_simps split: option.splits)

lemma list_scim_groups_absent:
  "''filter'' \<notin> dict_keys kw \<Longrightarrow>
     map (has_param ''filter'') (sent_by hc (ScimService_list_scim_groups net hc None c si kw)) = [False]"
  "''count'' \<notin> dict_keys kw \<Longrightarrow>
     map (has_param ''count'') (sent_by hc (ScimService_list_scim_groups net hc f None si kw)) = [False]"
  "''startIndex'' \<notin> dict_keys kw \<Longrightarrow>
     map (has_param ''startIndex'') (sent_by hc (ScimService_list_scim_groups net hc f c None kw)) = [False]"
  by (simp_all add: ScimService_list_scim_groups_def absent_simps split: option.splits)

lemma nothing_supplied:
  "map req_params (sent_by hc (AuthService_create_login_flow_browser net hc None None)) = [None]"
  "map req_params (sent_by hc (AuthService_create_login_flow_api net hc None None)) = [None]"
  "map req_params (sent_by hc (AuthService_create_registration_flow_browser net hc None)) = [None]"
  "map req_params (sent_by hc (AuthService_create_registration_flow_api net hc None)) = [None]"
  "map req_params (sent_by hc (ScimService_list_users net hc None None None [])) = [None]"
  "map req_params (sent_by hc (ScimService_list_scim_groups net hc None None None [])) = [None]"
  "map req_params (sent_by hc (ScimService_list_sessions net hc None)) = [None]"
  "map req_params (sent_by hc (FgaService_list_stores net hc None)) = [None]"
  "map req_params (sent_by hc (FgaService_read_store_tuples net hc store_id [])) = [None]"
  "map req_params (sent_by hc (OAuth2Service_oidc_logout net hc None None None)) = [None]"
  "map req_params (sent_by hc (WebhooksService_list_deliveries net hc org_id webhook_id [])) = [None]"
  by (simp_all add: facade_defs none_simps)

text \<open>
  C7. In every facade method with optional query arguments (the audit query, the
  four self-service flow creators, the SCIM user, group and session listings, the
  FGA store listing and tuple read, the OIDC logout and the webhook delivery
  listing), an argument that is not supplied puts no key into the query mapping of
  the one request sent, and when no optional argument is supplied the method passes
  no query mapping at all. For the two SCIM listings, which also take a bag of extra
  keyword parameters, the key is absent unless the bag itself holds it.
\<close>

theorem C7_unsupplied_query_arguments_absent:
  "map (has_param ''tenant_id'')
     (sent_by hc (AuditService_query net hc None event_types user_id start_date end_date limit offset)) = [False]
   \<and> map (has_param ''event_types'')
     (sent_by hc (AuditService_query net hc tenant_id None user_id start_date end_date limit offset)) = [False]
   \<and> map (has_param ''user_id'')
     (sent_by hc (AuditService_query net hc tenant_id event_types None start_date end_date limit offset)) = [False]
   \<and> map (has_param ''start_date'')
     (sent_by hc (AuditService_query net hc tenant_id event_types user_id None end_date limit offset)) = [False]
   \<and> map (has_param ''end_date'')
     (sent_by hc (AuditService_query net hc tenant_id event_types user_id start_date None limit offset)) = [False]
   \<and> map (has_param ''limit'')
     (sent_by hc (AuditService_query net hc tenant_id event_types user_id start_date end_date None offset)) = [False]
   \<and> map (has_param ''offset'')
     (sent_by hc (AuditService_query net hc tenant_id event_types user_id start_date end_date limit None)) = [False]
   \<and> map req_params
     (sent_by hc (AuditService_query net hc None None None None None None None)) = [None]
   \<and> map (has_param ''organization_id'')
     (sent_by hc (AuthService_create_login_flow_browser net hc None request_id)) = [False]
   \<and> map (has_param ''request_id'')
     (sent_by hc (AuthService_create_login_flow_browser net hc organization_id None)) = [False]
   \<and> map req_params
     (sent_by hc (AuthService_create_login_flow_browser net hc None None)) = [None]
   \<and> map (has_param ''organization_id'')
     (sent_by hc (AuthService_create_login_flow_api net hc None request_id)) = [False]
   \<and> map (has_param ''request_id'')
     (sent_by hc (AuthService_create_login_flow_api net hc organization_id None)) = [False]
   \<and> map req_params
     (sent_by hc (AuthService_create_login_flow_api net hc None None)) = [None]
   \<and> map req_params
     (sent_by hc (AuthService_create_registration_flow_browser net hc None)) = [None]
   \<and> map req_params
     (sent_by hc (AuthService_create_registration_flow_api net hc None)) = [None]
   \<and> (''filter'' \<notin> dict_keys kw \<longrightarrow>
        map (has_param ''filter'')
          (sent_by hc (ScimService_list_users net hc None count start_index kw)) = [False])
   \<and> (''count'' \<notin> dict_keys kw \<longrightarrow>
        map (has_param ''count'')
          (sent_by hc (ScimService_list_users net hc filter_arg None start_index kw)) = [False])
   \<and> (''startIndex'' \<notin> dict_keys kw \<longrightarrow>
        map (has_param ''startIndex'')
          (sent_by hc (ScimService_list_users net hc filter_arg count None kw)) = [False])
   \<and> map req_params
     (sent_by hc (ScimService_list_users net hc None None None [])) = [None]
   \<and> (''filter'' \<notin> dict_keys kw \<longrightarrow>
        map (has_param ''filter'')
          (sent_by hc (ScimService_list_scim_groups net hc None count start_index kw)) = [False])
   \<and> (''count'' \<notin> dict_keys kw \<longrightarrow>
        map (has_param ''count'')
          (sent_by hc (ScimService_list_scim_groups net hc filter_arg None start_index kw)) = [False])
   \<and> (''startIndex'' \<notin> dict_keys kw \<longrightarrow>
        map (has_param ''startIndex'')
          (sent_by hc (ScimService_list_scim_groups net hc filter_arg count None kw)) = [False])
   \<and> map req_params
     (sent_by hc (ScimService_list_scim_groups net hc None None None [])) = [None]
   \<and> map req_params
     (sent_by hc (ScimService_list_sessions net hc None)) = [None]
   \<and> map req_params
     (sent_by hc (FgaService_list_stores net hc None)) = [None]
   \<and> map req_params
     (sent_by hc (FgaService_read_store_tuples net hc store_id [])) = [None]
   \<and> map (has_param ''id_token_hint'')
     (sent_by hc (OAuth2Service_oidc_logout net hc None post_logout_redirect_uri state)) = [False]
   \<and> map (has_param ''post_logout_redirect_uri'')
     (sent_by hc (OAuth2Service_oidc_logout net hc id_token_hint None state)) = [False]
   \<and> map (has_param ''state'')
     (sent_by hc (OAuth2Service_oidc_logout net hc id_token_hint post_logout_redirect_uri None)) = [False]
   \<and> map req_params
     (sent_by hc (OAuth2Service_oidc_logout net hc None None None)) = [None]
   \<and> map req_params
     (sent_by hc (WebhooksService_list_deliveries net hc org_id webhook_id [])) = [None]"
  by (intro conjI impI)
    (simp_all only: audit_absent audit_none login_flow_absent oidc_logout_absent
      list_users_absent list_scim_groups_absent nothing_supplied not_False_eq_True)

theorem C7_witness:
  "map (has_param ''filter'')
     (sent_by localhost
        (ScimService_list_users no_content localhost None (Some 10) None
           [(''sortBy'', PStr ''userName'')])) = [False]
   \<and> map (has_param ''startIndex'')
     (sent_by localhost
        (ScimService_list_users no_content localhost None (Some 10) None
           [(''sortBy'', PStr ''userName'')])) = [False]
   \<and> map (has_param ''count'')
     (sent_by localhost
        (ScimService_list_scim_groups no_content localhost (Some ''displayName eq x'') None (Some 1)
           [(''sortBy'', PStr ''userName'')])) = [False]
   \<and> map req_params
     (sent_by localhost
        (AuthService_create_login_flow_browser no_content localhost None None)) = [None]"
proof -
  note T = C7_unsupplied_query_arguments_absent
    [where hc = localhost and net = no_content and kw = "[(''sortBy'', PStr ''userName'')]"
       and tenant_id = None and event_types = None and user_id = None and start_date = None
       and end_date = None and limit = None and offset = None and organization_id = None
       and request_id = None and id_token_hint = None and post_logout_redirect_uri = None
       and state = None and store_id = "''s''" and org_id = "''o''" and webhook_id = "''w''"]
  have k: "''filter'' \<notin> dict_keys [(''sortBy'', PStr ''userName'')]"
    "''startIndex'' \<notin> dict_keys [(''sortBy'', PStr ''userName'')]"
    "''count'' \<notin> dict_keys [(''sortBy'', PStr ''userName'')]"
    by (simp_all add: dict_keys_def)
  show ?thesis
    using k T [where count = "Some 10" and start_index = None and filter_arg = None]
      T [where filter_arg = "Some ''displayName eq x''" and start_index = "Some 1" and count = None]
    by simp
qed

end
